theory Spec2Isabelle
  imports Complex_Main "HOL-Library.AList"
begin

section \<open>The quantile regression objective (src/objective/quantile_obj.cu)\<close>

text \<open>
  A shallow embedding of the class \<open>QuantileRegression\<close>. Single and double precision
  floating point numbers are idealised as \<^typ>\<open>real\<close>: rounding, infinities and
  not-a-number are outside the model. Sizes and indices (\<open>std::size_t\<close>,
  \<open>bst_target_t\<close>, whose widths are declared outside this file) are natural numbers.
  Every \<open>CHECK\<close> of the source is a branch returning an error value.
\<close>

subsection \<open>Data model\<close>

datatype error =
    ConfigurationError
  | UnsupportedShapeError
  | ShapeMismatchError
  | SchemaMismatchError
  | EmptyInputError
  | DistributedCommError
  | JsonError
  | GPUSupportError
  | OutOfBounds

text \<open>\<open>GradientPair\<close>: a gradient and a hessian; the default value is zero in both.\<close>

record GradientPair =
  grad :: real
  hess :: real

definition GradientPair0 :: GradientPair where
  "GradientPair0 = \<lparr>grad = 0, hess = 0\<rparr>"

text \<open>
  A two-dimensional tensor of floats (\<open>linalg::Tensor\<close>): contiguous row-major data and
  the shape. \<open>Shape 0\<close> is the number of rows, \<open>Shape 1\<close> the number of columns.
\<close>

record Tensor2 =
  data :: "real list"
  shape0 :: nat
  shape1 :: nat

text \<open>
  The fields of \<open>MetaInfo\<close> that the objective reads: \<open>num_row\<close> and \<open>weights\<close>
  are the members \<open>num_row_\<close> and \<open>weights_\<close> (a name cannot end with an underscore
  here). \<open>ShouldHaveLabels\<close> is the value of the method \<open>info.ShouldHaveLabels()\<close>,
  which is defined outside this file.
\<close>

record MetaInfo =
  num_row :: nat
  labels :: Tensor2
  weights :: "real list"
  ShouldHaveLabels :: bool

text \<open>
  The object state: \<open>quantile_alpha\<close> is \<open>param_.quantile_alpha\<close>, and \<open>m_alpha\<close> is
  the member \<open>alpha_\<close>, the vector copied from it by \<open>Configure\<close> and \<open>LoadConfig\<close>.
\<close>

record QuantileRegression =
  quantile_alpha :: "real list"
  m_alpha :: "real list"

text \<open>
  A configured objective: the state that \<open>Configure\<close> and \<open>LoadConfig\<close> leave, with
  \<open>alpha_\<close> a copy of a non-empty \<open>param_.quantile_alpha\<close>.
\<close>

definition configured :: "QuantileRegression \<Rightarrow> bool" where
  "configured obj \<longleftrightarrow> quantile_alpha obj = m_alpha obj \<and> m_alpha obj \<noteq> []"

subsection \<open>Checked reads\<close>

text \<open>
  A read through a span or a tensor view at an index outside the buffer has no defined
  result in the source; the model makes it the error \<open>OutOfBounds\<close>.
\<close>

definition read_at :: "'a list \<Rightarrow> nat \<Rightarrow> error + 'a" where
  "read_at xs i = (if i < length xs then Inr (xs ! i) else Inl OutOfBounds)"

definition view2 :: "Tensor2 \<Rightarrow> nat \<Rightarrow> nat \<Rightarrow> error + real" where
  "view2 t i j = read_at (data t) (i * shape1 t + j)"

text \<open>
  Modelled from the spec: \<open>common::OptionalWeights\<close> is declared outside this file; a
  sample has one optional weight, 1.0 when no weights are supplied.
\<close>

definition OptionalWeights :: "real list \<Rightarrow> nat \<Rightarrow> error + real" where
  "OptionalWeights ws i = (if ws = [] then Inr 1 else read_at ws i)"

subsection \<open>Targets\<close>

definition Targets :: "QuantileRegression \<Rightarrow> MetaInfo \<Rightarrow> error + nat" where
  "Targets obj info =
     (let alpha = quantile_alpha obj in
      if length alpha \<noteq> length (m_alpha obj) then Inl ConfigurationError
      else if ShouldHaveLabels info \<and> shape1 (labels info) \<noteq> 1 then Inl UnsupportedShapeError
      else if alpha = [] then Inl ConfigurationError
      else
        let n_y = max 1 (shape1 (labels info)) in
        Inr (length (m_alpha obj) * n_y))"

subsection \<open>GetGradient\<close>

text \<open>
  \<open>Reshape\<close> of an output tensor resizes its storage to \<open>n\<close> entries: the leading
  entries stay, new entries are default-constructed (\<open>dflt\<close>).
\<close>

definition Reshape :: "'a \<Rightarrow> nat \<Rightarrow> 'a list \<Rightarrow> 'a list" where
  "Reshape dflt n old = take n old @ replicate (n - length old) dflt"

text \<open>The closed form computed in one cell of the grid.\<close>

definition pinball :: "real \<Rightarrow> real \<Rightarrow> real \<Rightarrow> real \<Rightarrow> GradientPair" where
  "pinball p y w a =
     (let d = p - y; h = w in
      if d \<ge> 0 then \<lparr>grad = (1 - a) * w, hess = h\<rparr>
      else \<lparr>grad = - a * w, hess = h\<rparr>)"

text \<open>
  The body of the lambda passed to the kernel: it reads \<open>predt(i, j)\<close>,
  \<open>labels(i, 0)\<close>, \<open>weight[i]\<close> and \<open>alpha[j]\<close> and writes \<open>gpair(i, j)\<close>.
\<close>

definition kernel_body ::
  "real list \<Rightarrow> real list \<Rightarrow> Tensor2 \<Rightarrow> real list \<Rightarrow> nat \<Rightarrow> nat \<Rightarrow> nat \<Rightarrow> error + GradientPair"
where
  "kernel_body alpha preds lbl ws n_targets i j =
     (case read_at preds (i * n_targets + j) of Inl e \<Rightarrow> Inl e | Inr p \<Rightarrow>
     (case view2 lbl i 0 of Inl e \<Rightarrow> Inl e | Inr y \<Rightarrow>
     (case OptionalWeights ws i of Inl e \<Rightarrow> Inl e | Inr w \<Rightarrow>
     (case read_at alpha j of Inl e \<Rightarrow> Inl e | Inr a \<Rightarrow>
        Inr (pinball p y w a)))))"

definition kernel_fn ::
  "real list \<Rightarrow> real list \<Rightarrow> Tensor2 \<Rightarrow> real list \<Rightarrow> nat \<Rightarrow> nat \<Rightarrow> nat \<Rightarrow>
   GradientPair list \<Rightarrow> error + GradientPair list"
where
  "kernel_fn alpha preds lbl ws n_targets i j gpair =
     (case kernel_body alpha preds lbl ws n_targets i j of
        Inl e \<Rightarrow> Inl e
      | Inr gp \<Rightarrow>
          if i * n_targets + j < length gpair then Inr (gpair[i * n_targets + j := gp])
          else Inl OutOfBounds)"

text \<open>
  Modelled from the spec: \<open>linalg::ElementWiseKernel\<close> is defined outside this file. It
  calls the function once per cell of the grid, on host threads or on the accelerator, with
  no ordering between cells. The order in which the cells are visited is the parameter
  \<open>sched\<close>, a list of linear (row-major) cell indices; a cell index \<open>idx\<close> of a grid
  with \<open>cols\<close> columns is the cell \<open>(idx div cols, idx mod cols)\<close>. An error in a cell
  aborts the call.
\<close>

fun ElementWiseKernel ::
  "nat list \<Rightarrow> nat \<Rightarrow> (nat \<Rightarrow> nat \<Rightarrow> 'a list \<Rightarrow> error + 'a list) \<Rightarrow> 'a list \<Rightarrow> error + 'a list"
where
  "ElementWiseKernel [] cols fn t = Inr t"
| "ElementWiseKernel (idx # rest) cols fn t =
     (case fn (idx div cols) (idx mod cols) t of
        Inl e \<Rightarrow> Inl e
      | Inr t' \<Rightarrow> ElementWiseKernel rest cols fn t')"

text \<open>
  \<open>CheckInitInputs\<close> (init_estimation.h) is outside this file and is the parameter
  \<open>chk\<close>: it returns the error it raises, if any. \<open>out_gpair\<close> is the previous content of
  the output matrix.
\<close>

definition GetGradient ::
  "nat list \<Rightarrow> (MetaInfo \<Rightarrow> error option) \<Rightarrow> QuantileRegression \<Rightarrow> real list \<Rightarrow> MetaInfo \<Rightarrow>
   int \<Rightarrow> GradientPair list \<Rightarrow> error + GradientPair list"
where
  "GetGradient sched chk obj preds info iter out_gpair =
     (case (if iter = 0 then chk info else None) of
        Some e \<Rightarrow> Inl e
      | None \<Rightarrow>
          (if length (quantile_alpha obj) \<noteq> length (m_alpha obj) then Inl ConfigurationError
           else
             (case Targets obj info of
                Inl e \<Rightarrow> Inl e
              | Inr n_targets \<Rightarrow>
                  (let n_alphas = length (m_alpha obj) in
                   if n_alphas = 0 then Inl ConfigurationError
                   else if \<not> n_targets \<ge> n_alphas then Inl ShapeMismatchError
                   else if length preds \<noteq> num_row info * n_targets then Inl ShapeMismatchError
                   else if shape1 (labels info) \<noteq> 1 then Inl UnsupportedShapeError
                   else
                     (let gpair = Reshape GradientPair0 (num_row info * n_targets) out_gpair in
                      ElementWiseKernel sched n_targets
                        (kernel_fn (m_alpha obj) preds (labels info) (weights info) n_targets)
                        gpair)))))"

subsection \<open>InitEstimation\<close>

text \<open>The device of the execution context \<open>ctx_\<close>.\<close>

datatype Device = CPU | CUDA

text \<open>
  Modelled from the spec: \<open>common::Mean\<close> (common/stats.h) is outside this file; it is
  the arithmetic mean of the entries of a vector.
\<close>

definition Mean :: "real list \<Rightarrow> real" where
  "Mean v = sum_list v / real (length v)"

text \<open>
  Modelled from the spec: the reduction primitive \<open>collective::GlobalSum\<close> is outside this
  file. It returns the element-wise sum of the 2-vector over all cooperating workers, or
  reports a communication error, which \<open>SafeColl\<close> makes fatal. The worker sees the other
  workers through \<open>peer_data\<close>, the 2-vectors they contribute, and \<open>reduce_ok\<close>, whether
  the primitive reports success.
\<close>

record Collective =
  reduce_ok :: bool
  peer_data :: "(real \<times> real) list"

definition GlobalSum :: "Collective \<Rightarrow> real \<times> real \<Rightarrow> error + real \<times> real" where
  "GlobalSum coll dat =
     (if \<not> reduce_ok coll then Inl DistributedCommError
      else Inr (fst dat + sum_list (map fst (peer_data coll)),
                snd dat + sum_list (map snd (peer_data coll))))"

text \<open>
  The host loop over the targets. The estimators \<open>common::Quantile\<close> and
  \<open>common::WeightedQuantile\<close> (common/stats.h) are outside this file and are the
  parameters \<open>Q\<close> and \<open>WQ\<close>; they receive the level and all entries of the label
  tensor (and the weights). The loop variable runs over the list \<open>ts\<close>.
\<close>

fun host_quantiles ::
  "(real \<Rightarrow> real list \<Rightarrow> error + real) \<Rightarrow> (real \<Rightarrow> real list \<Rightarrow> real list \<Rightarrow> error + real) \<Rightarrow>
   QuantileRegression \<Rightarrow> MetaInfo \<Rightarrow> nat list \<Rightarrow> real list \<Rightarrow> error + real list"
where
  "host_quantiles Q WQ obj info [] quantiles = Inr quantiles"
| "host_quantiles Q WQ obj info (t # ts) quantiles =
     (case read_at (quantile_alpha obj) t of
        Inl e \<Rightarrow> Inl e
      | Inr alpha \<Rightarrow>
          (let h_labels = labels info; h_weights = weights info in
           case (if h_weights = [] then Q alpha (data h_labels)
                 else if length h_weights \<noteq> shape0 h_labels * shape1 h_labels
                 then Inl ShapeMismatchError
                 else WQ alpha (data h_labels) h_weights) of
             Inl e \<Rightarrow> Inl e
           | Inr q \<Rightarrow>
               (if t < length quantiles
                then host_quantiles Q WQ obj info ts (quantiles[t := q])
                else Inl OutOfBounds)))"

text \<open>
  The part of \<open>InitEstimation\<close> before the reduction: it returns the array \<open>dat\<close>, the
  2-vector this worker contributes. \<open>base_score\<close> is the previous content of the output
  vector. The accelerator branch is the one of a build without \<open>XGBOOST_USE_CUDA\<close>,
  \<open>common::AssertGPUSupport()\<close>, which fails; the segmented estimators of the other
  build are outside this file.
\<close>

definition InitEstimation_local ::
  "(real \<Rightarrow> real list \<Rightarrow> error + real) \<Rightarrow> (real \<Rightarrow> real list \<Rightarrow> real list \<Rightarrow> error + real) \<Rightarrow>
   Device \<Rightarrow> QuantileRegression \<Rightarrow> MetaInfo \<Rightarrow> real list \<Rightarrow> error + real \<times> real"
where
  "InitEstimation_local Q WQ dev obj info base_score =
     (if m_alpha obj = [] then Inl ConfigurationError
      else
        (case Targets obj info of
           Inl e \<Rightarrow> Inl e
         | Inr n_targets \<Rightarrow>
             (let quantiles0 = Reshape 0 n_targets base_score in
              case dev of
                CUDA \<Rightarrow> Inl GPUSupportError
              | CPU \<Rightarrow>
                  (let h_weights = weights info;
                       sw = (if h_weights = [] then real (num_row info) else sum_list h_weights)
                   in
                   case host_quantiles Q WQ obj info [0..<n_targets] quantiles0 of
                     Inl e \<Rightarrow> Inl e
                   | Inr quantiles \<Rightarrow>
                       (let temp = Mean quantiles; meanq = temp * sw in
                        Inr (meanq, sw))))))"

text \<open>
  \<open>InitEstimation\<close>: the local part, the global sum, and the division by the summed
  weight plus \<open>kRtEps\<close>. The constant \<open>kRtEps\<close> (xgboost/base.h) is outside this file
  and is a parameter. The result is the output vector, reshaped to one entry.
\<close>

definition InitEstimation ::
  "(real \<Rightarrow> real list \<Rightarrow> error + real) \<Rightarrow> (real \<Rightarrow> real list \<Rightarrow> real list \<Rightarrow> error + real) \<Rightarrow>
   real \<Rightarrow> Collective \<Rightarrow> Device \<Rightarrow> QuantileRegression \<Rightarrow> MetaInfo \<Rightarrow> real list \<Rightarrow>
   error + real list"
where
  "InitEstimation Q WQ kRtEps coll dev obj info base_score =
     (case InitEstimation_local Q WQ dev obj info base_score of
        Inl e \<Rightarrow> Inl e
      | Inr dat \<Rightarrow>
          (case GlobalSum coll dat of
             Inl e \<Rightarrow> Inl e
           | Inr (meanq, sw) \<Rightarrow> Inr (replicate 1 (meanq / (sw + kRtEps)))))"

subsection \<open>The quantile estimators\<close>

text \<open>
  Modelled from the spec: \<open>common::Quantile\<close> (common/stats.h) is outside this file. The
  unweighted estimator uses ordinary order-statistic interpolation and fails with
  \<open>EmptyInputError\<close> on zero samples: the labels are sorted, the position of level
  \<open>alpha\<close> among \<open>n\<close> order statistics is \<open>alpha * (n + 1)\<close>, positions at or beyond
  the ends give the smallest and the largest label, and a position between two order
  statistics interpolates linearly between them.
\<close>

definition Quantile :: "real \<Rightarrow> real list \<Rightarrow> error + real" where
  "Quantile alpha xs =
     (if xs = [] then Inl EmptyInputError
      else
        (let n = real (length xs); sorted_vals = sort xs in
         if alpha \<le> 1 / (n + 1) then Inr (sorted_vals ! 0)
         else if alpha \<ge> n / (n + 1) then Inr (sorted_vals ! (length xs - 1))
         else
           (let x = alpha * (n + 1);
                k = nat \<lfloor>x\<rfloor> - 1;
                d = (x - 1) - real k;
                v0 = sorted_vals ! k;
                v1 = sorted_vals ! (k + 1)
            in Inr (v0 + d * (v1 - v0)))))"

text \<open>Running sums of a list: the cumulative weight up to each position.\<close>

fun running_sum :: "real \<Rightarrow> real list \<Rightarrow> real list" where
  "running_sum acc [] = []"
| "running_sum acc (w # ws) = (acc + w) # running_sum (acc + w) ws"

text \<open>
  Modelled from the spec: \<open>common::WeightedQuantile\<close> (common/stats.h) is outside this
  file. The weighted estimator fails with \<open>EmptyInputError\<close> on zero samples; each label
  contributes to the cumulative mass in proportion to its weight: the labels are sorted
  with their weights, and the estimate is the first label, in that order, whose cumulative
  weight reaches the fraction \<open>alpha\<close> of the total weight (the last label if none does).
\<close>

definition WeightedQuantile :: "real \<Rightarrow> real list \<Rightarrow> real list \<Rightarrow> error + real" where
  "WeightedQuantile alpha xs ws =
     (if xs = [] then Inl EmptyInputError
      else if length ws < length xs then Inl OutOfBounds
      else
        (let sorted_pairs = sort_key fst (zip xs ws);
             weight_cdf = running_sum 0 (map snd sorted_pairs);
             thresh = last weight_cdf * alpha;
             idx = min (length (takeWhile (\<lambda>c. c < thresh) weight_cdf)) (length xs - 1)
         in Inr (fst (sorted_pairs ! idx))))"

subsection \<open>Configuration and serialization\<close>

text \<open>
  Modelled from the spec: the parameter parsing (\<open>UpdateAllowUnknown\<close>) and
  \<open>QuantileLossParam::Validate\<close> are outside this file. The argument is the list of
  levels; configuration fails when it is empty.
\<close>

definition Configure :: "real list \<Rightarrow> QuantileRegression \<Rightarrow> error + QuantileRegression" where
  "Configure levels obj =
     (if levels = [] then Inl ConfigurationError
      else Inr (obj\<lparr>quantile_alpha := levels, m_alpha := levels\<rparr>))"

definition Name :: string where
  "Name = ''reg:quantileerror''"

text \<open>
  Modelled from the spec: the document type \<open>Json\<close> (xgboost/json.h) is outside this
  file. A document is a string, a number, an array, an object (keys with values) or null.
  Writing a key of an object replaces its value; reading a key or casting a value of the
  wrong kind fails.
\<close>

datatype Json =
    JsonString string
  | JsonNumber real
  | JsonArray "Json list"
  | JsonObject "(string \<times> Json) list"
  | JsonNull

text \<open>
  Modelled from the spec: writing the key \<open>k\<close> of a document (\<open>out[k] = v\<close>).
\<close>

definition set_key :: "string \<Rightarrow> Json \<Rightarrow> Json \<Rightarrow> error + Json" where
  "set_key k v doc =
     (case doc of
        JsonObject kvs \<Rightarrow> Inr (JsonObject (AList.update k v kvs))
      | _ \<Rightarrow> Inl JsonError)"

text \<open>
  Modelled from the spec: reading the key \<open>k\<close> of a document (\<open>in[k]\<close>).
\<close>

definition get_key :: "Json \<Rightarrow> string \<Rightarrow> error + Json" where
  "get_key doc k =
     (case doc of
        JsonObject kvs \<Rightarrow> (case map_of kvs k of Some v \<Rightarrow> Inr v | None \<Rightarrow> Inl JsonError)
      | _ \<Rightarrow> Inl JsonError)"

text \<open>
  Modelled from the spec: the cast of a document to a string (\<open>get<String const>\<close>).
\<close>

definition get_String :: "Json \<Rightarrow> error + string" where
  "get_String j = (case j of JsonString s \<Rightarrow> Inr s | _ \<Rightarrow> Inl JsonError)"

text \<open>
  Modelled from the spec: the numbers of an array of numbers.
\<close>

fun get_numbers :: "Json list \<Rightarrow> error + real list" where
  "get_numbers [] = Inr []"
| "get_numbers (JsonNumber x # js) =
     (case get_numbers js of Inl e \<Rightarrow> Inl e | Inr xs \<Rightarrow> Inr (x # xs))"
| "get_numbers (_ # js) = Inl JsonError"

text \<open>
  Modelled from the spec: \<open>ToJson\<close> of the parameter structure is outside this file. The
  payload is an object whose key \<open>quantile_alpha\<close> holds the array of levels.
\<close>

definition ToJson :: "real list \<Rightarrow> Json" where
  "ToJson levels = JsonObject [(''quantile_alpha'', JsonArray (map JsonNumber levels))]"

text \<open>
  Modelled from the spec: \<open>FromJson\<close> of the parameter structure is outside this file. It
  reads the array of levels under the key \<open>quantile_alpha\<close> of the payload.
\<close>

definition FromJson :: "Json \<Rightarrow> error + real list" where
  "FromJson j =
     (case get_key j ''quantile_alpha'' of
        Inl e \<Rightarrow> Inl e
      | Inr (JsonArray js) \<Rightarrow> get_numbers js
      | Inr _ \<Rightarrow> Inl JsonError)"

text \<open>\<open>SaveConfig\<close> writes two keys of the document \<open>out\<close> it is given.\<close>

definition SaveConfig :: "QuantileRegression \<Rightarrow> Json \<Rightarrow> error + Json" where
  "SaveConfig obj out =
     (case set_key ''name'' (JsonString Name) out of
        Inl e \<Rightarrow> Inl e
      | Inr out1 \<Rightarrow> set_key ''quantile_loss_param'' (ToJson (quantile_alpha obj)) out1)"

definition LoadConfig :: "Json \<Rightarrow> QuantileRegression \<Rightarrow> error + QuantileRegression" where
  "LoadConfig doc obj =
     (case get_key doc ''name'' of
        Inl e \<Rightarrow> Inl e
      | Inr nm \<Rightarrow>
          (case get_String nm of
             Inl e \<Rightarrow> Inl e
           | Inr s \<Rightarrow>
               (if s \<noteq> Name then Inl SchemaMismatchError
                else
                  (case get_key doc ''quantile_loss_param'' of
                     Inl e \<Rightarrow> Inl e
                   | Inr pj \<Rightarrow>
                       (case FromJson pj of
                          Inl e \<Rightarrow> Inl e
                        | Inr levels \<Rightarrow>
                            Inr (obj\<lparr>quantile_alpha := levels, m_alpha := levels\<rparr>))))))"

section \<open>Properties\<close>

subsection \<open>Auxiliary facts\<close>

lemma Configure_configured:
  "Configure levels obj = Inr obj' \<Longrightarrow> configured obj' \<and> m_alpha obj' = levels"
  by (auto simp: Configure_def configured_def split: if_splits)

lemma kernel_body_error:
  "kernel_body a p l w c i j = Inl e \<Longrightarrow> e = OutOfBounds"
  by (auto simp: kernel_body_def read_at_def view2_def OptionalWeights_def
           split: sum.splits if_splits)

lemma ElementWiseKernel_kernel_fn:
  assumes "0 < c"
  shows "ElementWiseKernel sched c (kernel_fn a p l w c) g =
     (if \<forall>idx\<in>set sched. idx < length g \<and> (\<exists>v. kernel_body a p l w c (idx div c) (idx mod c) = Inr v)
      then Inr (map (\<lambda>k. if k \<in> set sched
                          then projr (kernel_body a p l w c (k div c) (k mod c))
                          else g ! k) [0..<length g])
      else Inl OutOfBounds)"
proof (induction sched arbitrary: g)
  case Nil
  show ?case by (simp add: map_nth)
next
  case (Cons idx rest)
  show ?case
  proof (cases "kernel_body a p l w c (idx div c) (idx mod c)")
    case (Inl e)
    then have "e = OutOfBounds" by (rule kernel_body_error)
    with Inl show ?thesis by (simp add: kernel_fn_def)
  next
    case (Inr v)
    show ?thesis
    proof (cases "idx < length g")
      case False
      with Inr assms show ?thesis by (simp add: kernel_fn_def)
    next
      case True
      have step: "kernel_fn a p l w c (idx div c) (idx mod c) g = Inr (g[idx := v])"
        using Inr True assms by (simp add: kernel_fn_def)
      have eq: "map (\<lambda>k. if k \<in> set rest
                          then projr (kernel_body a p l w c (k div c) (k mod c))
                          else g[idx := v] ! k) [0..<length g]
              = map (\<lambda>k. if k \<in> set (idx # rest)
                          then projr (kernel_body a p l w c (k div c) (k mod c))
                          else g ! k) [0..<length g]"
        using Inr by (auto simp: nth_list_update)
      show ?thesis
        using step Inr True Cons.IH [of "g[idx := v]"] eq by simp
    qed
  qed
qed

lemma grid_index_less:
  assumes "i < r" "j < (n::nat)"
  shows "i * n + j < r * n"
proof -
  have "i * n + j < Suc i * n" using assms by simp
  also have "\<dots> \<le> r * n" using assms by (intro mult_le_mono1) simp
  finally show ?thesis .
qed

lemma grid_index_div_mod:
  assumes "j < (n::nat)"
  shows "(i * n + j) div n = i" "(i * n + j) mod n = j"
  using assms by simp_all

lemma kernel_body_value:
  assumes "i * n + j < length preds" "shape1 lbl = 1" "i < length (data lbl)"
    "ws = [] \<or> i < length ws" "j < length alpha"
  shows "kernel_body alpha preds lbl ws n i j =
     Inr (pinball (preds ! (i * n + j)) (data lbl ! i) (if ws = [] then 1 else ws ! i) (alpha ! j))"
  using assms by (auto simp: kernel_body_def read_at_def view2_def OptionalWeights_def)

lemma kernel_body_Inr:
  assumes "kernel_body alpha preds lbl ws n i j = Inr v" "shape1 lbl = 1"
  shows "v = pinball (preds ! (i * n + j)) (data lbl ! i) (if ws = [] then 1 else ws ! i) (alpha ! j)"
  using assms
  by (auto simp: kernel_body_def read_at_def view2_def OptionalWeights_def
           split: sum.splits if_splits)

lemma Targets_sized:
  assumes "length (quantile_alpha obj) = length (m_alpha obj)" "m_alpha obj \<noteq> []"
  shows "Targets obj info =
     (if ShouldHaveLabels info \<and> shape1 (labels info) \<noteq> 1 then Inl UnsupportedShapeError
      else Inr (length (m_alpha obj) * max 1 (shape1 (labels info))))"
  using assms by (auto simp: Targets_def Let_def)

lemma length_Reshape: "length (Reshape d n old) = n"
  by (simp add: Reshape_def)

lemma GetGradient_kernel:
  assumes chk: "iter = 0 \<longrightarrow> chk info = None"
    and len: "length (quantile_alpha obj) = length (m_alpha obj)"
    and ne: "m_alpha obj \<noteq> []"
    and cols: "shape1 (labels info) = 1"
    and size: "length preds = num_row info * length (m_alpha obj)"
    and sched: "set sched = {0..<num_row info * length (m_alpha obj)}"
  shows "GetGradient sched chk obj preds info iter out_gpair =
     (let n = length (m_alpha obj) in
      if \<forall>idx<num_row info * n.
           \<exists>v. kernel_body (m_alpha obj) preds (labels info) (weights info) n
                  (idx div n) (idx mod n) = Inr v
      then Inr (map (\<lambda>k. projr (kernel_body (m_alpha obj) preds (labels info) (weights info) n
                                   (k div n) (k mod n)))
                  [0..<num_row info * n])
      else Inl OutOfBounds)"
proof -
  let ?n = "length (m_alpha obj)"
  have n: "0 < ?n" using ne by simp
  have T: "Targets obj info = Inr ?n"
    using len ne cols by (simp add: Targets_sized)
  have pre: "(if iter = 0 then chk info else None) = None" using chk by simp
  have "GetGradient sched chk obj preds info iter out_gpair =
      ElementWiseKernel sched ?n
        (kernel_fn (m_alpha obj) preds (labels info) (weights info) ?n)
        (Reshape GradientPair0 (num_row info * ?n) out_gpair)"
    using len ne cols size by (simp add: GetGradient_def pre T Let_def)
  also have "\<dots> = (let n = length (m_alpha obj) in
      if \<forall>idx<num_row info * n.
           \<exists>v. kernel_body (m_alpha obj) preds (labels info) (weights info) n
                  (idx div n) (idx mod n) = Inr v
      then Inr (map (\<lambda>k. projr (kernel_body (m_alpha obj) preds (labels info) (weights info) n
                                   (k div n) (k mod n)))
                  [0..<num_row info * n])
      else Inl OutOfBounds)"
    unfolding ElementWiseKernel_kernel_fn [OF n] length_Reshape sched Let_def
    by (auto cong: if_cong)
  finally show ?thesis .
qed

lemma GetGradient_before_kernel:
  assumes "\<not> ((iter = 0 \<longrightarrow> chk info = None)
            \<and> length (quantile_alpha obj) = length (m_alpha obj) \<and> m_alpha obj \<noteq> []
            \<and> shape1 (labels info) = 1
            \<and> length preds = num_row info * length (m_alpha obj))"
  shows "GetGradient s1 chk obj preds info iter out1 = GetGradient s2 chk obj preds info iter out2"
  using assms
  by (auto simp: GetGradient_def Targets_def Let_def split: option.splits)

lemma GetGradient_Inr_reaches:
  assumes "GetGradient sched chk obj preds info iter out_gpair = Inr g"
  shows "(iter = 0 \<longrightarrow> chk info = None)
         \<and> length (quantile_alpha obj) = length (m_alpha obj) \<and> m_alpha obj \<noteq> []
         \<and> shape1 (labels info) = 1
         \<and> length preds = num_row info * length (m_alpha obj)"
  using assms
  by (auto simp: GetGradient_def Targets_def Let_def split: option.splits if_splits sum.splits)

lemma GetGradient_Inr_value:
  assumes run: "GetGradient sched chk obj preds info iter out_gpair = Inr g"
    and sched: "set sched = {0..<num_row info * length (m_alpha obj)}"
  shows "g = map (\<lambda>k. projr (kernel_body (m_alpha obj) preds (labels info) (weights info)
                               (length (m_alpha obj))
                               (k div length (m_alpha obj)) (k mod length (m_alpha obj))))
                 [0..<num_row info * length (m_alpha obj)]"
    and "\<forall>idx<num_row info * length (m_alpha obj).
           \<exists>v. kernel_body (m_alpha obj) preds (labels info) (weights info)
                  (length (m_alpha obj))
                  (idx div length (m_alpha obj)) (idx mod length (m_alpha obj)) = Inr v"
proof -
  from GetGradient_Inr_reaches [OF run]
  have pre: "iter = 0 \<longrightarrow> chk info = None"
    "length (quantile_alpha obj) = length (m_alpha obj)" "m_alpha obj \<noteq> []"
    "shape1 (labels info) = 1" "length preds = num_row info * length (m_alpha obj)"
    by simp_all
  from run GetGradient_kernel [where chk = chk and info = info and out_gpair = out_gpair,
      OF pre sched]
  show "g = map (\<lambda>k. projr (kernel_body (m_alpha obj) preds (labels info) (weights info)
                               (length (m_alpha obj))
                               (k div length (m_alpha obj)) (k mod length (m_alpha obj))))
                 [0..<num_row info * length (m_alpha obj)]"
    and "\<forall>idx<num_row info * length (m_alpha obj).
           \<exists>v. kernel_body (m_alpha obj) preds (labels info) (weights info)
                  (length (m_alpha obj))
                  (idx div length (m_alpha obj)) (idx mod length (m_alpha obj)) = Inr v"
    by (auto simp: Let_def split: if_splits)
qed

lemma GetGradient_returns:
  assumes chk: "iter = 0 \<longrightarrow> chk info = None"
    and len: "length (quantile_alpha obj) = length (m_alpha obj)"
    and ne: "m_alpha obj \<noteq> []"
    and cols: "shape1 (labels info) = 1"
    and size: "length preds = num_row info * length (m_alpha obj)"
    and lbls: "num_row info \<le> length (data (labels info))"
    and wts: "weights info = [] \<or> num_row info \<le> length (weights info)"
    and sched: "set sched = {0..<num_row info * length (m_alpha obj)}"
  shows "\<exists>g. GetGradient sched chk obj preds info iter out_gpair = Inr g"
proof -
  let ?n = "length (m_alpha obj)"
  have n: "0 < ?n" using ne by simp
  have "\<exists>v. kernel_body (m_alpha obj) preds (labels info) (weights info) ?n
               (k div ?n) (k mod ?n) = Inr v" if "k < num_row info * ?n" for k
  proof -
    have i: "k div ?n < num_row info" using that n by (simp add: less_mult_imp_div_less)
    have j: "k mod ?n < ?n" using n by simp
    have "kernel_body (m_alpha obj) preds (labels info) (weights info) ?n (k div ?n) (k mod ?n) =
        Inr (pinball (preds ! (k div ?n * ?n + k mod ?n)) (data (labels info) ! (k div ?n))
               (if weights info = [] then 1 else weights info ! (k div ?n))
               (m_alpha obj ! (k mod ?n)))"
    proof (rule kernel_body_value)
      show "k div ?n * ?n + k mod ?n < length preds" using that size by simp
      show "shape1 (labels info) = 1" by (rule cols)
      show "k div ?n < length (data (labels info))" using i lbls by simp
      show "weights info = [] \<or> k div ?n < length (weights info)" using i wts by auto
      show "k mod ?n < ?n" by (rule j)
    qed
    then show ?thesis by blast
  qed
  then show ?thesis
    unfolding GetGradient_kernel [where chk = chk and info = info and out_gpair = out_gpair,
        OF chk len ne cols size sched]
    by (simp add: Let_def)
qed

lemma host_quantiles_all:
  assumes "\<forall>t\<in>set ts. t < length quantiles \<and> t < length (quantile_alpha obj)
              \<and> (if weights info = [] then Q (quantile_alpha obj ! t) (data (labels info))
                  else WQ (quantile_alpha obj ! t) (data (labels info)) (weights info)) = Inr (q t)"
    and "weights info \<noteq> [] \<longrightarrow>
           length (weights info) = shape0 (labels info) * shape1 (labels info)"
  shows "host_quantiles Q WQ obj info ts quantiles =
           Inr (map (\<lambda>k. if k \<in> set ts then q k else quantiles ! k) [0..<length quantiles])"
  using assms
proof (induction ts arbitrary: quantiles)
  case Nil
  show ?case by (simp add: map_nth)
next
  case (Cons t ts)
  have t: "t < length quantiles" "t < length (quantile_alpha obj)"
    using Cons.prems(1) by simp_all
  have est: "(if weights info = [] then Q (quantile_alpha obj ! t) (data (labels info))
              else WQ (quantile_alpha obj ! t) (data (labels info)) (weights info)) = Inr (q t)"
    using Cons.prems(1) by simp
  have step: "host_quantiles Q WQ obj info (t # ts) quantiles =
              host_quantiles Q WQ obj info ts (quantiles[t := q t])"
    using t est Cons.prems(2) by (simp add: read_at_def Let_def split: if_splits)
  have rest: "\<forall>t'\<in>set ts. t' < length (quantiles[t := q t]) \<and> t' < length (quantile_alpha obj)
              \<and> (if weights info = [] then Q (quantile_alpha obj ! t') (data (labels info))
                  else WQ (quantile_alpha obj ! t') (data (labels info)) (weights info)) = Inr (q t')"
    using Cons.prems(1) by simp
  have eq: "map (\<lambda>k. if k \<in> set ts then q k else quantiles[t := q t] ! k) [0..<length quantiles]
          = map (\<lambda>k. if k \<in> set (t # ts) then q k else quantiles ! k) [0..<length quantiles]"
    by (auto simp: nth_list_update)
  show ?case
    using Cons.IH [OF rest Cons.prems(2)] step eq by simp
qed

lemma get_numbers_map: "get_numbers (map JsonNumber xs) = Inr xs"
  by (induction xs) simp_all

lemma FromJson_ToJson: "FromJson (ToJson levels) = Inr levels"
  by (simp add: FromJson_def ToJson_def get_key_def get_numbers_map)

lemma LoadConfig_other_name:
  assumes "get_key doc ''name'' = Inr (JsonString s)" "s \<noteq> Name"
  shows "LoadConfig doc obj = Inl SchemaMismatchError"
  using assms by (simp add: LoadConfig_def get_String_def)

subsection \<open>The gradient\<close>

text \<open>
  C1. On inputs that pass the checks of \<open>GetGradient\<close> (configured objective, one label
  column, a prediction buffer of \<open>num_row * |alpha|\<close> entries, a label and, when weights are
  supplied, a weight for every row), the call returns a matrix with one pair per (sample,
  quantile) cell. In cell \<open>(i, j)\<close> the hessian is the weight \<open>w_i\<close> (1 when no weights
  are supplied); the gradient is \<open>(1 - alpha_j) * w_i\<close> when \<open>prediction(i, j) - y_i \<ge> 0\<close>
  and \<open>- alpha_j * w_i\<close> when it is negative; at the tie \<open>d = 0\<close> the gradient is
  \<open>(1 - alpha_j) * w_i\<close>. This holds for every order in which the cells are visited.
\<close>

theorem GetGradient_pinball:
  assumes chk: "iter = 0 \<longrightarrow> chk info = None"
    and conf: "configured obj"
    and cols: "shape1 (labels info) = 1"
    and size: "length preds = num_row info * length (m_alpha obj)"
    and lbls: "num_row info \<le> length (data (labels info))"
    and wts: "weights info = [] \<or> num_row info \<le> length (weights info)"
    and sched: "set sched = {0..<num_row info * length (m_alpha obj)}"
  shows "\<exists>g. GetGradient sched chk obj preds info iter out_gpair = Inr g
           \<and> length g = num_row info * length (m_alpha obj)
           \<and> (\<forall>i<num_row info. \<forall>j<length (m_alpha obj).
                 (let n = length (m_alpha obj);
                      d = preds ! (i * n + j) - data (labels info) ! i;
                      w = (if weights info = [] then 1 else weights info ! i);
                      a = m_alpha obj ! j;
                      gp = g ! (i * n + j)
                  in hess gp = w
                     \<and> (d \<ge> 0 \<longrightarrow> grad gp = (1 - a) * w)
                     \<and> (d < 0 \<longrightarrow> grad gp = - a * w)
                     \<and> (d = 0 \<longrightarrow> grad gp = (1 - a) * w)))"
proof -
  let ?n = "length (m_alpha obj)"
  let ?N = "num_row info * ?n"
  let ?cell = "\<lambda>k. kernel_body (m_alpha obj) preds (labels info) (weights info) ?n
                     (k div ?n) (k mod ?n)"
  let ?val = "\<lambda>i j. pinball (preds ! (i * ?n + j)) (data (labels info) ! i)
                     (if weights info = [] then 1 else weights info ! i) (m_alpha obj ! j)"
  have len: "length (quantile_alpha obj) = ?n" and ne: "m_alpha obj \<noteq> []"
    using conf by (simp_all add: configured_def)
  have n: "0 < ?n" using ne by simp
  have cell: "kernel_body (m_alpha obj) preds (labels info) (weights info) ?n i j = Inr (?val i j)"
    if "i < num_row info" "j < ?n" for i j
  proof (rule kernel_body_value)
    show "i * ?n + j < length preds" using that size by (simp add: grid_index_less)
    show "shape1 (labels info) = 1" by (rule cols)
    show "i < length (data (labels info))" using that lbls by simp
    show "weights info = [] \<or> i < length (weights info)" using that wts by auto
    show "j < ?n" using that by simp
  qed
  have cellk: "?cell k = Inr (?val (k div ?n) (k mod ?n))" if "k < ?N" for k
  proof -
    have "k div ?n < num_row info" using that n by (simp add: less_mult_imp_div_less)
    moreover have "k mod ?n < ?n" using n by simp
    ultimately show ?thesis by (rule cell)
  qed
  define g where "g = map (\<lambda>k. projr (?cell k)) [0..<?N]"
  have "GetGradient sched chk obj preds info iter out_gpair =
     (let n = ?n in
      if \<forall>idx<num_row info * n. \<exists>v. kernel_body (m_alpha obj) preds (labels info)
                                          (weights info) n (idx div n) (idx mod n) = Inr v
      then Inr (map (\<lambda>k. projr (kernel_body (m_alpha obj) preds (labels info) (weights info) n
                                   (k div n) (k mod n)))
                  [0..<num_row info * n])
      else Inl OutOfBounds)"
    using chk len ne cols size sched by (rule GetGradient_kernel)
  then have run: "GetGradient sched chk obj preds info iter out_gpair = Inr g"
    using cellk by (auto simp: g_def Let_def)
  have lg: "length g = ?N" by (simp add: g_def)
  have at: "g ! (i * ?n + j) = ?val i j" if "i < num_row info" "j < ?n" for i j
  proof -
    have k: "i * ?n + j < ?N" using that by (rule grid_index_less)
    have "g ! (i * ?n + j) = projr (?cell (i * ?n + j))"
      using k by (simp add: g_def)
    also have "\<dots> = ?val i j"
      using cell [OF that] that by (simp add: grid_index_div_mod)
    finally show ?thesis .
  qed
  have "\<forall>i<num_row info. \<forall>j<?n.
          (let n = ?n;
               d = preds ! (i * n + j) - data (labels info) ! i;
               w = (if weights info = [] then 1 else weights info ! i);
               a = m_alpha obj ! j;
               gp = g ! (i * n + j)
           in hess gp = w
              \<and> (d \<ge> 0 \<longrightarrow> grad gp = (1 - a) * w)
              \<and> (d < 0 \<longrightarrow> grad gp = - a * w)
              \<and> (d = 0 \<longrightarrow> grad gp = (1 - a) * w))"
    by (simp add: at pinball_def Let_def)
  with run lg show ?thesis by blast
qed

text \<open>
  The theorem at two rows and two levels, with weights 2 and 3: cell \<open>(0, 0)\<close> is a tie
  and cell \<open>(0, 1)\<close> an under-prediction.
\<close>

theorem GetGradient_pinball_witness:
  "\<exists>g. GetGradient [3, 1, 0, 2] (\<lambda>_. None)
          \<lparr>quantile_alpha = [1/10, 1/2], m_alpha = [1/10, 1/2]\<rparr> [1, 0, 3, 2]
          \<lparr>num_row = 2, labels = \<lparr>data = [1, 2], shape0 = 2, shape1 = 1\<rparr>,
           weights = [2, 3], ShouldHaveLabels = True\<rparr> 0 [] = Inr g
        \<and> length g = 4
        \<and> hess (g ! 0) = 2 \<and> grad (g ! 0) = (1 - 1/10) * 2
        \<and> hess (g ! 1) = 2 \<and> grad (g ! 1) = - (1/2) * 2"
proof -
  let ?obj = "\<lparr>quantile_alpha = [1/10, 1/2], m_alpha = [1/10, 1/2 :: real]\<rparr>"
  let ?info = "\<lparr>num_row = 2, labels = \<lparr>data = [1, 2], shape0 = 2, shape1 = 1\<rparr>,
                weights = [2, 3], ShouldHaveLabels = True\<rparr>"
  have h: "(0::int) = 0 \<longrightarrow> (\<lambda>_. None :: error option) ?info = None" "configured ?obj"
    "shape1 (labels ?info) = 1" "length [1, 0, 3, 2 :: real] = num_row ?info * length (m_alpha ?obj)"
    "num_row ?info \<le> length (data (labels ?info))"
    "weights ?info = [] \<or> num_row ?info \<le> length (weights ?info)"
    "set [3, 1, 0, 2] = {0..<num_row ?info * length (m_alpha ?obj)}"
    by (auto simp: configured_def)
  from GetGradient_pinball [where chk = "\<lambda>_. None" and info = ?info and out_gpair = "[]", OF h]
  obtain g where run: "GetGradient [3, 1, 0, 2] (\<lambda>_. None) ?obj [1, 0, 3, 2] ?info 0 [] = Inr g"
    and len: "length g = num_row ?info * length (m_alpha ?obj)"
    and cells: "\<forall>i<num_row ?info. \<forall>j<length (m_alpha ?obj).
                 (let n = length (m_alpha ?obj);
                      d = [1, 0, 3, 2] ! (i * n + j) - data (labels ?info) ! i;
                      w = (if weights ?info = [] then 1 else weights ?info ! i);
                      a = m_alpha ?obj ! j;
                      gp = g ! (i * n + j)
                  in hess gp = w
                     \<and> (d \<ge> 0 \<longrightarrow> grad gp = (1 - a) * w)
                     \<and> (d < 0 \<longrightarrow> grad gp = - a * w)
                     \<and> (d = 0 \<longrightarrow> grad gp = (1 - a) * w))"
    by blast
  have c0: "hess (g ! 0) = 2 \<and> grad (g ! 0) = (1 - 1/10) * 2"
    using cells [rule_format, of 0 0] by (simp add: Let_def)
  have c1: "hess (g ! 1) = 2 \<and> grad (g ! 1) = - (1/2) * 2"
    using cells [rule_format, of 0 1] by (simp add: Let_def)
  from run len c0 c1 show ?thesis by simp
qed

text \<open>
  C10. \<open>GetGradient\<close> returns the same result, a matrix or an error, for any two orders
  of visiting the cells of the grid and whatever the output matrix held before the call;
  when it returns a matrix, the pair in cell \<open>(i, j)\<close> is the value of the one function
  \<open>pinball\<close> at \<open>prediction(i, j)\<close>, \<open>label(i)\<close>, \<open>weight(i)\<close> and \<open>alpha(j)\<close>; and
  two calls that return, with the same predictions, labels, weights and levels, return the
  same matrix, also at different iterations.
\<close>

theorem GetGradient_cell_pure:
  assumes cover: "set sched = {0..<num_row info * length (m_alpha obj)}"
    and cover': "set sched' = {0..<num_row info * length (m_alpha obj)}"
  shows "GetGradient sched chk obj preds info iter out_gpair
           = GetGradient sched' chk obj preds info iter out_gpair'
         \<and> (\<forall>g. GetGradient sched chk obj preds info iter out_gpair = Inr g \<longrightarrow>
               (\<forall>i<num_row info. \<forall>j<length (m_alpha obj).
                  g ! (i * length (m_alpha obj) + j) =
                    pinball (preds ! (i * length (m_alpha obj) + j)) (data (labels info) ! i)
                      (if weights info = [] then 1 else weights info ! i) (m_alpha obj ! j)))
         \<and> (\<forall>g g' chk' iter'.
               GetGradient sched chk obj preds info iter out_gpair = Inr g
               \<and> GetGradient sched' chk' obj preds info iter' out_gpair' = Inr g' \<longrightarrow> g = g')"
proof (intro conjI allI impI)
  show "GetGradient sched chk obj preds info iter out_gpair
          = GetGradient sched' chk obj preds info iter out_gpair'"
  proof (cases "(iter = 0 \<longrightarrow> chk info = None)
            \<and> length (quantile_alpha obj) = length (m_alpha obj) \<and> m_alpha obj \<noteq> []
            \<and> shape1 (labels info) = 1
            \<and> length preds = num_row info * length (m_alpha obj)")
    case True
    then have pre: "iter = 0 \<longrightarrow> chk info = None"
      "length (quantile_alpha obj) = length (m_alpha obj)" "m_alpha obj \<noteq> []"
      "shape1 (labels info) = 1" "length preds = num_row info * length (m_alpha obj)"
      by simp_all
    show ?thesis
      by (simp only:
            GetGradient_kernel [where chk = chk and info = info and out_gpair = out_gpair,
              OF pre cover]
            GetGradient_kernel [where chk = chk and info = info and out_gpair = out_gpair',
              OF pre cover'])
  next
    case False
    then show ?thesis by (rule GetGradient_before_kernel)
  qed
next
  fix g i j
  let ?n = "length (m_alpha obj)"
  let ?cell = "\<lambda>k. kernel_body (m_alpha obj) preds (labels info) (weights info) ?n
                     (k div ?n) (k mod ?n)"
  assume run: "GetGradient sched chk obj preds info iter out_gpair = Inr g"
    and i: "i < num_row info" and j: "j < ?n"
  have cols: "shape1 (labels info) = 1"
    using GetGradient_Inr_reaches [OF run] by simp
  have k: "i * ?n + j < num_row info * ?n" using i j by (rule grid_index_less)
  note g = GetGradient_Inr_value(1) [OF run cover] and ok = GetGradient_Inr_value(2) [OF run cover]
  from ok k obtain v where v: "?cell (i * ?n + j) = Inr v" by blast
  then have "kernel_body (m_alpha obj) preds (labels info) (weights info) ?n i j = Inr v"
    using j by (simp add: grid_index_div_mod)
  then have "v = pinball (preds ! (i * ?n + j)) (data (labels info) ! i)
                   (if weights info = [] then 1 else weights info ! i) (m_alpha obj ! j)"
    using cols by (rule kernel_body_Inr)
  moreover have "g ! (i * ?n + j) = v"
    by (subst g) (use k v in simp)
  ultimately show "g ! (i * ?n + j) =
      pinball (preds ! (i * ?n + j)) (data (labels info) ! i)
        (if weights info = [] then 1 else weights info ! i) (m_alpha obj ! j)"
    by simp
next
  fix g g' chk' iter'
  assume "GetGradient sched chk obj preds info iter out_gpair = Inr g
          \<and> GetGradient sched' chk' obj preds info iter' out_gpair' = Inr g'"
  then have r1: "GetGradient sched chk obj preds info iter out_gpair = Inr g"
    and r2: "GetGradient sched' chk' obj preds info iter' out_gpair' = Inr g'"
    by simp_all
  show "g = g'"
    by (simp only: GetGradient_Inr_value(1) [OF r1 cover] GetGradient_Inr_value(1) [OF r2 cover'])
qed

text \<open>
  The theorem at two visiting orders and two previous contents of the output matrix: both
  calls return the same matrix, whose cell \<open>(1, 1)\<close> is the value of \<open>pinball\<close>.
\<close>

theorem GetGradient_cell_pure_witness:
  "\<exists>g. GetGradient [0, 1, 2, 3] (\<lambda>_. None)
      \<lparr>quantile_alpha = [1/10, 1/2], m_alpha = [1/10, 1/2]\<rparr> [1, 0, 3, 2]
      \<lparr>num_row = 2, labels = \<lparr>data = [1, 2], shape0 = 2, shape1 = 1\<rparr>,
       weights = [2, 3], ShouldHaveLabels = True\<rparr> 0 [] = Inr g
    \<and> GetGradient [3, 1, 0, 2] (\<lambda>_. None)
      \<lparr>quantile_alpha = [1/10, 1/2], m_alpha = [1/10, 1/2]\<rparr> [1, 0, 3, 2]
      \<lparr>num_row = 2, labels = \<lparr>data = [1, 2], shape0 = 2, shape1 = 1\<rparr>,
       weights = [2, 3], ShouldHaveLabels = True\<rparr> 0 [\<lparr>grad = 7, hess = 7\<rparr>] = Inr g
    \<and> g ! 3 = pinball 2 2 3 (1/2)"
proof -
  let ?obj = "\<lparr>quantile_alpha = [1/10, 1/2], m_alpha = [1/10, 1/2 :: real]\<rparr>"
  let ?info = "\<lparr>num_row = 2, labels = \<lparr>data = [1, 2], shape0 = 2, shape1 = 1\<rparr>,
                weights = [2, 3], ShouldHaveLabels = True\<rparr>"
  let ?run1 = "GetGradient [0, 1, 2, 3] (\<lambda>_. None) ?obj [1, 0, 3, 2] ?info 0 []"
  let ?run2 = "GetGradient [3, 1, 0, 2] (\<lambda>_. None) ?obj [1, 0, 3, 2] ?info 0
                 [\<lparr>grad = 7, hess = 7\<rparr>]"
  have h: "set [0, 1, 2, 3] = {0..<num_row ?info * length (m_alpha ?obj)}"
    "set [3, 1, 0, 2] = {0..<num_row ?info * length (m_alpha ?obj)}"
    by auto
  have pre: "(0::int) = 0 \<longrightarrow> (\<lambda>_. None :: error option) ?info = None"
    "length (quantile_alpha ?obj) = length (m_alpha ?obj)" "m_alpha ?obj \<noteq> []"
    "shape1 (labels ?info) = 1" "length [1, 0, 3, 2 :: real] = num_row ?info * length (m_alpha ?obj)"
    "num_row ?info \<le> length (data (labels ?info))"
    "weights ?info = [] \<or> num_row ?info \<le> length (weights ?info)"
    by simp_all
  from GetGradient_returns [where chk = "\<lambda>_. None" and info = ?info and out_gpair = "[]",
      OF pre h(1)]
  obtain g where r1: "?run1 = Inr g" by blast
  from GetGradient_cell_pure [where chk = "\<lambda>_. None" and iter = 0 and preds = "[1, 0, 3, 2]"
      and out_gpair = "[]" and out_gpair' = "[\<lparr>grad = 7, hess = 7\<rparr>]", OF h]
  have eq: "?run1 = ?run2"
    and cells: "\<forall>g. ?run1 = Inr g \<longrightarrow>
               (\<forall>i<num_row ?info. \<forall>j<length (m_alpha ?obj).
                  g ! (i * length (m_alpha ?obj) + j) =
                    pinball ([1, 0, 3, 2] ! (i * length (m_alpha ?obj) + j)) (data (labels ?info) ! i)
                      (if weights ?info = [] then 1 else weights ?info ! i) (m_alpha ?obj ! j))"
    by blast+
  from cells [rule_format, OF r1, of 1 1] have c: "g ! 3 = pinball 2 2 3 (1/2)"
    by (simp add: numeral_3_eq_3)
  from eq r1 have r2: "?run2 = Inr g" by (rule subst)
  from r1 r2 c show ?thesis by blast
qed

text \<open>
  C7, as stated, fails where both of its conditions hold, because the checks run in the
  order of the source. With two label columns and a prediction buffer of the wrong size:
  on a worker that expects no labels the size check comes first and the error is
  \<open>ShapeMismatchError\<close>, not \<open>UnsupportedShapeError\<close>; on a worker that expects labels
  \<open>Targets\<close> rejects the labels first and the error is \<open>UnsupportedShapeError\<close>, not
  \<open>ShapeMismatchError\<close>.
\<close>

theorem GetGradient_shape_errors_overlap:
  "GetGradient [0, 1, 2, 3] (\<lambda>_. None)
      \<lparr>quantile_alpha = [1/10, 1/2], m_alpha = [1/10, 1/2]\<rparr> [1, 0, 3]
      \<lparr>num_row = 2, labels = \<lparr>data = [1, 2, 3, 4], shape0 = 2, shape1 = 2\<rparr>,
       weights = [], ShouldHaveLabels = False\<rparr> 0 [] = Inl ShapeMismatchError
   \<and> GetGradient [0, 1, 2, 3] (\<lambda>_. None)
      \<lparr>quantile_alpha = [1/10, 1/2], m_alpha = [1/10, 1/2]\<rparr> [1, 0, 3]
      \<lparr>num_row = 2, labels = \<lparr>data = [1, 2, 3, 4], shape0 = 2, shape1 = 2\<rparr>,
       weights = [], ShouldHaveLabels = False\<rparr> 0 [] \<noteq> Inl UnsupportedShapeError
   \<and> GetGradient [0, 1, 2, 3] (\<lambda>_. None)
      \<lparr>quantile_alpha = [1/10, 1/2], m_alpha = [1/10, 1/2]\<rparr> [1, 0, 3]
      \<lparr>num_row = 2, labels = \<lparr>data = [1, 2, 3, 4], shape0 = 2, shape1 = 2\<rparr>,
       weights = [], ShouldHaveLabels = True\<rparr> 0 [] = Inl UnsupportedShapeError
   \<and> GetGradient [0, 1, 2, 3] (\<lambda>_. None)
      \<lparr>quantile_alpha = [1/10, 1/2], m_alpha = [1/10, 1/2]\<rparr> [1, 0, 3]
      \<lparr>num_row = 2, labels = \<lparr>data = [1, 2, 3, 4], shape0 = 2, shape1 = 2\<rparr>,
       weights = [], ShouldHaveLabels = True\<rparr> 0 [] \<noteq> Inl ShapeMismatchError"
  by (simp add: GetGradient_def Targets_def)

text \<open>
  C7, amended. For a configured objective whose inputs pass \<open>CheckInitInputs\<close>, the
  checks of \<open>GetGradient\<close> decide in the order of the source. When labels are expected
  and the label matrix does not have exactly one column, the call fails with
  \<open>UnsupportedShapeError\<close>, whatever the size of the prediction buffer. Otherwise
  \<open>Targets\<close> returns the target count \<open>|levels| * max 1 labelColumns\<close>; when the prediction
  buffer does not have \<open>num_row * targetCount\<close> entries the call fails with
  \<open>ShapeMismatchError\<close>, also when the label matrix has more than one column; and when the
  size is right and the label matrix does not have exactly one column it fails with
  \<open>UnsupportedShapeError\<close>. A label matrix with more than one column thus always fails,
  with one of the two errors. A failing call returns an error value and no gradient matrix.
\<close>

theorem GetGradient_check_order:
  assumes chk: "iter = 0 \<longrightarrow> chk info = None"
    and conf: "configured obj"
  shows "(ShouldHaveLabels info \<and> shape1 (labels info) \<noteq> 1 \<longrightarrow>
            GetGradient sched chk obj preds info iter out_gpair = Inl UnsupportedShapeError)
       \<and> (\<not> (ShouldHaveLabels info \<and> shape1 (labels info) \<noteq> 1) \<longrightarrow>
            Targets obj info = Inr (length (m_alpha obj) * max 1 (shape1 (labels info)))
            \<and> (length preds \<noteq> num_row info * (length (m_alpha obj) * max 1 (shape1 (labels info)))
                 \<longrightarrow> GetGradient sched chk obj preds info iter out_gpair = Inl ShapeMismatchError)
            \<and> (length preds = num_row info * (length (m_alpha obj) * max 1 (shape1 (labels info)))
                 \<and> shape1 (labels info) \<noteq> 1
                 \<longrightarrow> GetGradient sched chk obj preds info iter out_gpair = Inl UnsupportedShapeError))
       \<and> (1 < shape1 (labels info) \<longrightarrow>
            GetGradient sched chk obj preds info iter out_gpair = Inl UnsupportedShapeError
            \<or> GetGradient sched chk obj preds info iter out_gpair = Inl ShapeMismatchError)
       \<and> (\<forall>e. GetGradient sched chk obj preds info iter out_gpair = Inl e \<longrightarrow>
            (\<forall>g. GetGradient sched chk obj preds info iter out_gpair \<noteq> Inr g))"
proof -
  have len: "length (quantile_alpha obj) = length (m_alpha obj)" and ne: "m_alpha obj \<noteq> []"
    using conf by (simp_all add: configured_def)
  have pre: "(if iter = 0 then chk info else None) = None" using chk by simp
  note T = Targets_sized [OF len ne, of info]
  show ?thesis
    using len ne by (auto simp: GetGradient_def pre T Let_def max_def)
qed

text \<open>
  The theorem at two label columns with labels expected, at one label column and a buffer
  of three entries for four cells, and at two label columns with no labels expected, first
  with a buffer of the wrong size and then with one of the right size.
\<close>

theorem GetGradient_check_order_witness:
  "GetGradient [0, 1, 2, 3] (\<lambda>_. None)
      \<lparr>quantile_alpha = [1/10, 1/2], m_alpha = [1/10, 1/2]\<rparr> [1, 0, 3]
      \<lparr>num_row = 2, labels = \<lparr>data = [1, 2, 3, 4], shape0 = 2, shape1 = 2\<rparr>,
       weights = [], ShouldHaveLabels = True\<rparr> 0 [] = Inl UnsupportedShapeError
   \<and> GetGradient [0, 1, 2, 3] (\<lambda>_. None)
      \<lparr>quantile_alpha = [1/10, 1/2], m_alpha = [1/10, 1/2]\<rparr> [1, 0, 3]
      \<lparr>num_row = 2, labels = \<lparr>data = [1, 2], shape0 = 2, shape1 = 1\<rparr>,
       weights = [], ShouldHaveLabels = True\<rparr> 0 [] = Inl ShapeMismatchError
   \<and> GetGradient [0, 1, 2, 3] (\<lambda>_. None)
      \<lparr>quantile_alpha = [1/10, 1/2], m_alpha = [1/10, 1/2]\<rparr> [1, 0, 3]
      \<lparr>num_row = 2, labels = \<lparr>data = [1, 2, 3, 4], shape0 = 2, shape1 = 2\<rparr>,
       weights = [], ShouldHaveLabels = False\<rparr> 0 [] = Inl ShapeMismatchError
   \<and> GetGradient [0, 1, 2, 3] (\<lambda>_. None)
      \<lparr>quantile_alpha = [1/10, 1/2], m_alpha = [1/10, 1/2]\<rparr> [1, 0, 3, 2, 1, 0, 3, 2]
      \<lparr>num_row = 2, labels = \<lparr>data = [1, 2, 3, 4], shape0 = 2, shape1 = 2\<rparr>,
       weights = [], ShouldHaveLabels = False\<rparr> 0 [] = Inl UnsupportedShapeError"
proof -
  let ?obj = "\<lparr>quantile_alpha = [1/10, 1/2], m_alpha = [1/10, 1/2 :: real]\<rparr>"
  let ?i1 = "\<lparr>num_row = 2, labels = \<lparr>data = [1, 2, 3, 4], shape0 = 2, shape1 = 2\<rparr>,
              weights = [], ShouldHaveLabels = True\<rparr>"
  let ?i2 = "\<lparr>num_row = 2, labels = \<lparr>data = [1, 2], shape0 = 2, shape1 = 1\<rparr>,
              weights = [], ShouldHaveLabels = True\<rparr>"
  let ?i3 = "\<lparr>num_row = 2, labels = \<lparr>data = [1, 2, 3, 4], shape0 = 2, shape1 = 2\<rparr>,
              weights = [], ShouldHaveLabels = False\<rparr>"
  have c: "configured ?obj" by (simp add: configured_def)
  have k1: "(0::int) = 0 \<longrightarrow> (\<lambda>_. None :: error option) ?i1 = None" by simp
  have k2: "(0::int) = 0 \<longrightarrow> (\<lambda>_. None :: error option) ?i2 = None" by simp
  have k3: "(0::int) = 0 \<longrightarrow> (\<lambda>_. None :: error option) ?i3 = None" by simp
  from GetGradient_check_order [where chk = "\<lambda>_. None" and info = ?i1 and preds = "[1, 0, 3]"
      and sched = "[0, 1, 2, 3]" and out_gpair = "[]", OF k1 c]
  have a: "GetGradient [0, 1, 2, 3] (\<lambda>_. None) ?obj [1, 0, 3] ?i1 0 [] = Inl UnsupportedShapeError"
    by simp
  from GetGradient_check_order [where chk = "\<lambda>_. None" and info = ?i2 and preds = "[1, 0, 3]"
      and sched = "[0, 1, 2, 3]" and out_gpair = "[]", OF k2 c]
  have b: "GetGradient [0, 1, 2, 3] (\<lambda>_. None) ?obj [1, 0, 3] ?i2 0 [] = Inl ShapeMismatchError"
    by simp
  from GetGradient_check_order [where chk = "\<lambda>_. None" and info = ?i3 and preds = "[1, 0, 3]"
      and sched = "[0, 1, 2, 3]" and out_gpair = "[]", OF k3 c]
  have d: "GetGradient [0, 1, 2, 3] (\<lambda>_. None) ?obj [1, 0, 3] ?i3 0 [] = Inl ShapeMismatchError"
    by simp
  from GetGradient_check_order [where chk = "\<lambda>_. None" and info = ?i3
      and preds = "[1, 0, 3, 2, 1, 0, 3, 2]"
      and sched = "[0, 1, 2, 3]" and out_gpair = "[]", OF k3 c]
  have e: "GetGradient [0, 1, 2, 3] (\<lambda>_. None) ?obj [1, 0, 3, 2, 1, 0, 3, 2] ?i3 0 []
             = Inl UnsupportedShapeError"
    by simp
  from a b d e show ?thesis by simp
qed

subsection \<open>The target count\<close>

text \<open>
  C2, as stated, fails where labels are expected and the label tensor has no column: the
  check in \<open>Targets\<close> compares the column count with 1, so the call fails instead of
  returning \<open>|levels| * max 1 0\<close>.
\<close>

theorem Targets_no_label_columns:
  "Targets \<lparr>quantile_alpha = [1/2], m_alpha = [1/2]\<rparr>
     \<lparr>num_row = 0, labels = \<lparr>data = [], shape0 = 0, shape1 = 0\<rparr>, weights = [],
      ShouldHaveLabels = True\<rparr>
   \<noteq> Inr (length [1/2 :: real] * max 1 0)"
  by (simp add: Targets_def)

text \<open>
  C2, amended. For every configured objective and every label info: when labels are
  expected and the number of label columns is not 1 (more than one column, or none),
  \<open>Targets\<close> fails with \<open>UnsupportedShapeError\<close>; otherwise it returns
  \<open>|levels| * max 1 labelColumns\<close>. For single-target labels it returns exactly
  \<open>|levels|\<close>.
\<close>

theorem Targets_count:
  assumes "configured obj"
  shows "Targets obj info =
           (if ShouldHaveLabels info \<and> shape1 (labels info) \<noteq> 1 then Inl UnsupportedShapeError
            else Inr (length (m_alpha obj) * max 1 (shape1 (labels info))))
       \<and> (shape1 (labels info) = 1 \<longrightarrow> Targets obj info = Inr (length (m_alpha obj)))"
  using assms by (auto simp: Targets_def configured_def Let_def)

text \<open>
  The theorem at three levels: one label column, two label columns, and no label column
  on a worker that expects no labels.
\<close>

theorem Targets_count_witness:
  "Targets \<lparr>quantile_alpha = [1/10, 1/2, 9/10], m_alpha = [1/10, 1/2, 9/10]\<rparr>
     \<lparr>num_row = 5, labels = \<lparr>data = [1, 2, 3, 4, 5], shape0 = 5, shape1 = 1\<rparr>, weights = [],
      ShouldHaveLabels = True\<rparr> = Inr 3
   \<and> Targets \<lparr>quantile_alpha = [1/10, 1/2, 9/10], m_alpha = [1/10, 1/2, 9/10]\<rparr>
     \<lparr>num_row = 2, labels = \<lparr>data = [1, 2, 3, 4], shape0 = 2, shape1 = 2\<rparr>, weights = [],
      ShouldHaveLabels = True\<rparr> = Inl UnsupportedShapeError
   \<and> Targets \<lparr>quantile_alpha = [1/10, 1/2, 9/10], m_alpha = [1/10, 1/2, 9/10]\<rparr>
     \<lparr>num_row = 0, labels = \<lparr>data = [], shape0 = 0, shape1 = 0\<rparr>, weights = [],
      ShouldHaveLabels = False\<rparr> = Inr 3"
proof -
  let ?obj = "\<lparr>quantile_alpha = [1/10, 1/2, 9/10], m_alpha = [1/10, 1/2, 9/10 :: real]\<rparr>"
  have c: "configured ?obj" by (simp add: configured_def)
  show ?thesis
    using Targets_count [OF c, of "\<lparr>num_row = 5,
            labels = \<lparr>data = [1, 2, 3, 4, 5], shape0 = 5, shape1 = 1\<rparr>, weights = [],
            ShouldHaveLabels = True\<rparr>"]
          Targets_count [OF c, of "\<lparr>num_row = 2,
            labels = \<lparr>data = [1, 2, 3, 4], shape0 = 2, shape1 = 2\<rparr>, weights = [],
            ShouldHaveLabels = True\<rparr>"]
          Targets_count [OF c, of "\<lparr>num_row = 0,
            labels = \<lparr>data = [], shape0 = 0, shape1 = 0\<rparr>, weights = [],
            ShouldHaveLabels = False\<rparr>"]
    by simp
qed

subsection \<open>Serialization\<close>

text \<open>
  C3. Saving a configured objective into an object document succeeds, and loading the
  saved document into any other instance gives an instance with the same level list. Loading
  fails with \<open>SchemaMismatchError\<close> when the name tag of the saved document is replaced by
  any other string, and for every document whose name tag is a string other than
  \<open>reg:quantileerror\<close>.
\<close>

theorem SaveConfig_LoadConfig_round_trip:
  assumes conf: "configured obj"
  shows "\<exists>doc. SaveConfig obj (JsonObject kvs) = Inr doc
           \<and> (\<exists>obj'. LoadConfig doc fresh = Inr obj'
                  \<and> m_alpha obj' = m_alpha obj \<and> quantile_alpha obj' = quantile_alpha obj)
           \<and> (\<forall>s. s \<noteq> Name \<longrightarrow>
                 (\<exists>doc'. set_key ''name'' (JsonString s) doc = Inr doc'
                     \<and> LoadConfig doc' fresh = Inl SchemaMismatchError))
           \<and> (\<forall>d s. get_key d ''name'' = Inr (JsonString s) \<and> s \<noteq> Name \<longrightarrow>
                 LoadConfig d fresh = Inl SchemaMismatchError)"
proof -
  define doc where "doc = JsonObject (AList.update ''quantile_loss_param''
      (ToJson (quantile_alpha obj)) (AList.update ''name'' (JsonString Name) kvs))"
  have qa: "quantile_alpha obj = m_alpha obj" using conf by (simp add: configured_def)
  have save: "SaveConfig obj (JsonObject kvs) = Inr doc"
    by (simp add: SaveConfig_def set_key_def doc_def)
  have name: "get_key doc ''name'' = Inr (JsonString Name)"
    by (simp add: get_key_def doc_def update_conv')
  have param: "get_key doc ''quantile_loss_param'' = Inr (ToJson (quantile_alpha obj))"
    by (simp add: get_key_def doc_def update_conv')
  have load: "LoadConfig doc fresh =
      Inr (fresh\<lparr>quantile_alpha := quantile_alpha obj, m_alpha := quantile_alpha obj\<rparr>)"
    by (simp add: LoadConfig_def name param get_String_def FromJson_ToJson)
  have alter: "\<exists>doc'. set_key ''name'' (JsonString s) doc = Inr doc'
                 \<and> LoadConfig doc' fresh = Inl SchemaMismatchError" if "s \<noteq> Name" for s
  proof -
    let ?doc' = "JsonObject (AList.update ''name'' (JsonString s)
        (AList.update ''quantile_loss_param'' (ToJson (quantile_alpha obj))
           (AList.update ''name'' (JsonString Name) kvs)))"
    have "set_key ''name'' (JsonString s) doc = Inr ?doc'"
      by (simp add: set_key_def doc_def)
    moreover have "get_key ?doc' ''name'' = Inr (JsonString s)"
      by (simp add: get_key_def update_conv')
    then have "LoadConfig ?doc' fresh = Inl SchemaMismatchError"
      using that by (rule LoadConfig_other_name)
    ultimately show ?thesis by blast
  qed
  have other: "\<forall>d s. get_key d ''name'' = Inr (JsonString s) \<and> s \<noteq> Name \<longrightarrow>
                 LoadConfig d fresh = Inl SchemaMismatchError"
    by (auto intro: LoadConfig_other_name)
  from save load qa alter other show ?thesis by auto
qed

text \<open>
  The theorem at the levels 0.1, 0.5 and 0.9, loaded into an instance with no levels, and
  with the name tag altered to that of another objective.
\<close>

theorem SaveConfig_LoadConfig_round_trip_witness:
  "\<exists>doc. SaveConfig \<lparr>quantile_alpha = [1/10, 1/2, 9/10], m_alpha = [1/10, 1/2, 9/10]\<rparr>
            (JsonObject []) = Inr doc
       \<and> (\<exists>obj'. LoadConfig doc \<lparr>quantile_alpha = [], m_alpha = []\<rparr> = Inr obj'
              \<and> m_alpha obj' = [1/10, 1/2, 9/10] \<and> quantile_alpha obj' = [1/10, 1/2, 9/10])
       \<and> (\<exists>doc'. set_key ''name'' (JsonString ''reg:squarederror'') doc = Inr doc'
              \<and> LoadConfig doc' \<lparr>quantile_alpha = [], m_alpha = []\<rparr> = Inl SchemaMismatchError)"
proof -
  let ?obj = "\<lparr>quantile_alpha = [1/10, 1/2, 9/10], m_alpha = [1/10, 1/2, 9/10 :: real]\<rparr>"
  let ?fresh = "\<lparr>quantile_alpha = [], m_alpha = [] :: real list\<rparr>"
  have c: "configured ?obj" by (simp add: configured_def)
  have n: "''reg:squarederror'' \<noteq> Name" by (simp add: Name_def)
  from SaveConfig_LoadConfig_round_trip [OF c, of "[]" ?fresh]
  obtain doc where save: "SaveConfig ?obj (JsonObject []) = Inr doc"
    and load: "\<exists>obj'. LoadConfig doc ?fresh = Inr obj'
                 \<and> m_alpha obj' = m_alpha ?obj \<and> quantile_alpha obj' = quantile_alpha ?obj"
    and alter: "\<forall>s. s \<noteq> Name \<longrightarrow>
                 (\<exists>doc'. set_key ''name'' (JsonString s) doc = Inr doc'
                     \<and> LoadConfig doc' ?fresh = Inl SchemaMismatchError)"
    by blast
  from alter n have "\<exists>doc'. set_key ''name'' (JsonString ''reg:squarederror'') doc = Inr doc'
                     \<and> LoadConfig doc' ?fresh = Inl SchemaMismatchError"
    by blast
  with save load show ?thesis by simp
qed

subsection \<open>The initial estimate\<close>

text \<open>
  C4. On the host path, when \<open>Targets\<close> returns the number of levels and the estimator
  returns the estimate \<open>qs ! t\<close> for each level \<open>t\<close>, the worker contributes the 2-vector
  \<open>(meanOfQuantiles * sw, sw)\<close>, where \<open>meanOfQuantiles\<close> is the arithmetic mean of the
  estimates and \<open>sw\<close> is the number of rows when there are no weights and the sum of the
  weights otherwise; and when the reduction succeeds, the base score is the first summed
  component divided by the second summed component plus \<open>kRtEps\<close>.
\<close>

theorem InitEstimation_contribution:
  assumes conf: "configured obj"
    and tgt: "Targets obj info = Inr (length (m_alpha obj))"
    and wlen: "weights info \<noteq> [] \<longrightarrow>
                 length (weights info) = shape0 (labels info) * shape1 (labels info)"
    and qlen: "length qs = length (m_alpha obj)"
    and est: "\<forall>t<length qs.
                (if weights info = [] then Q (quantile_alpha obj ! t) (data (labels info))
                 else WQ (quantile_alpha obj ! t) (data (labels info)) (weights info)) = Inr (qs ! t)"
    and ok: "reduce_ok coll"
  shows "(let sw = (if weights info = [] then real (num_row info) else sum_list (weights info));
              meanOfQuantiles = sum_list qs / real (length qs)
          in InitEstimation_local Q WQ CPU obj info base_score = Inr (meanOfQuantiles * sw, sw)
             \<and> InitEstimation Q WQ kRtEps coll CPU obj info base_score =
                 Inr [(meanOfQuantiles * sw + sum_list (map fst (peer_data coll)))
                      / (sw + sum_list (map snd (peer_data coll)) + kRtEps)])"
proof -
  let ?n = "length (m_alpha obj)"
  have ne: "m_alpha obj \<noteq> []" and qa: "quantile_alpha obj = m_alpha obj"
    using conf by (simp_all add: configured_def)
  have "host_quantiles Q WQ obj info [0..<?n] (Reshape 0 ?n base_score) =
          Inr (map (\<lambda>k. if k \<in> set [0..<?n] then qs ! k else Reshape 0 ?n base_score ! k)
                 [0..<length (Reshape 0 ?n base_score)])"
  proof (rule host_quantiles_all [where q = "\<lambda>k. qs ! k"])
    show "\<forall>t\<in>set [0..<?n]. t < length (Reshape 0 ?n base_score)
            \<and> t < length (quantile_alpha obj)
            \<and> (if weights info = [] then Q (quantile_alpha obj ! t) (data (labels info))
                else WQ (quantile_alpha obj ! t) (data (labels info)) (weights info)) = Inr (qs ! t)"
      using est qlen qa by (simp add: length_Reshape)
    show "weights info \<noteq> [] \<longrightarrow>
            length (weights info) = shape0 (labels info) * shape1 (labels info)"
      by (rule wlen)
  qed
  also have "map (\<lambda>k. if k \<in> set [0..<?n] then qs ! k else Reshape 0 ?n base_score ! k)
                 [0..<length (Reshape 0 ?n base_score)] = qs"
    using qlen by (intro nth_equalityI) (simp_all add: length_Reshape)
  finally have loop: "host_quantiles Q WQ obj info [0..<?n] (Reshape 0 ?n base_score) = Inr qs" .
  have loc: "InitEstimation_local Q WQ CPU obj info base_score =
      Inr (sum_list qs / real (length qs)
             * (if weights info = [] then real (num_row info) else sum_list (weights info)),
           (if weights info = [] then real (num_row info) else sum_list (weights info)))"
    using ne by (simp add: InitEstimation_local_def tgt loop Mean_def Let_def)
  show ?thesis
    using ok by (simp add: InitEstimation_def loc GlobalSum_def Let_def)
qed

text \<open>
  The theorem at the labels 1 to 5, three levels, no weights, and one other worker
  contributing \<open>(6, 3)\<close>.
\<close>

theorem InitEstimation_contribution_witness:
  "InitEstimation_local Quantile WeightedQuantile CPU
     \<lparr>quantile_alpha = [1/10, 1/2, 9/10], m_alpha = [1/10, 1/2, 9/10]\<rparr>
     \<lparr>num_row = 5, labels = \<lparr>data = [1, 2, 3, 4, 5], shape0 = 5, shape1 = 1\<rparr>,
      weights = [], ShouldHaveLabels = True\<rparr> [] = Inr ((1 + 3 + 5) / 3 * 5, 5)
   \<and> InitEstimation Quantile WeightedQuantile (1/1000000)
     \<lparr>reduce_ok = True, peer_data = [(6, 3)]\<rparr> CPU
     \<lparr>quantile_alpha = [1/10, 1/2, 9/10], m_alpha = [1/10, 1/2, 9/10]\<rparr>
     \<lparr>num_row = 5, labels = \<lparr>data = [1, 2, 3, 4, 5], shape0 = 5, shape1 = 1\<rparr>,
      weights = [], ShouldHaveLabels = True\<rparr> [] =
       Inr [((1 + 3 + 5) / 3 * 5 + 6) / (5 + 3 + 1/1000000)]"
proof -
  let ?obj = "\<lparr>quantile_alpha = [1/10, 1/2, 9/10], m_alpha = [1/10, 1/2, 9/10 :: real]\<rparr>"
  let ?info = "\<lparr>num_row = 5, labels = \<lparr>data = [1, 2, 3, 4, 5], shape0 = 5, shape1 = 1\<rparr>,
                weights = [], ShouldHaveLabels = True\<rparr>"
  let ?coll = "\<lparr>reduce_ok = True, peer_data = [(6, 3 :: real)]\<rparr>"
  let ?qs = "[1, 3, 5 :: real]"
  have c: "configured ?obj" by (simp add: configured_def)
  have t: "Targets ?obj ?info = Inr (length (m_alpha ?obj))" by (simp add: Targets_def)
  have w: "weights ?info \<noteq> [] \<longrightarrow>
             length (weights ?info) = shape0 (labels ?info) * shape1 (labels ?info)" by simp
  have l: "length ?qs = length (m_alpha ?obj)" by simp
  have e: "\<forall>t<length ?qs.
             (if weights ?info = [] then Quantile (quantile_alpha ?obj ! t) (data (labels ?info))
              else WeightedQuantile (quantile_alpha ?obj ! t) (data (labels ?info)) (weights ?info))
             = Inr (?qs ! t)"
    by (simp add: Quantile_def Let_def less_Suc_eq numeral_3_eq_3)
  have r: "reduce_ok ?coll" by simp
  from InitEstimation_contribution [where Q = Quantile and WQ = WeightedQuantile
      and kRtEps = "1/1000000" and base_score = "[]", OF c t w l e r]
  show ?thesis by (simp add: Let_def)
qed

text \<open>
  C5, as stated, fails in both of its halves. One worker holds the labels 1, 2, 3 and the
  other the label 10, at the level 0.5 and without weights: the local pairs
  \<open>(meanq, sw)\<close> are \<open>(2, 3)\<close> and \<open>(10, 1)\<close>. The weighted average is
  \<open>(2 * 3 + 10 * 1) / (3 + 1)\<close>, and the base score is \<open>16 / (4 + kRtEps)\<close>, which is
  another value for \<open>kRtEps\<close> one millionth (and for any other non-zero value). A single
  process over the pooled labels 1, 2, 3, 10 estimates the median 2.5 and returns
  \<open>10 / (4 + kRtEps)\<close>, which is not the base score of the two workers either.
\<close>

theorem InitEstimation_neither_average_nor_pooled:
  "InitEstimation_local Quantile WeightedQuantile CPU
     \<lparr>quantile_alpha = [1/2], m_alpha = [1/2]\<rparr>
     \<lparr>num_row = 3, labels = \<lparr>data = [1, 2, 3], shape0 = 3, shape1 = 1\<rparr>,
      weights = [], ShouldHaveLabels = True\<rparr> [] = Inr (2 * 3, 3)
   \<and> InitEstimation_local Quantile WeightedQuantile CPU
     \<lparr>quantile_alpha = [1/2], m_alpha = [1/2]\<rparr>
     \<lparr>num_row = 1, labels = \<lparr>data = [10], shape0 = 1, shape1 = 1\<rparr>,
      weights = [], ShouldHaveLabels = True\<rparr> [] = Inr (10 * 1, 1)
   \<and> InitEstimation Quantile WeightedQuantile (1/1000000)
     \<lparr>reduce_ok = True, peer_data = [(10 * 1, 1)]\<rparr> CPU
     \<lparr>quantile_alpha = [1/2], m_alpha = [1/2]\<rparr>
     \<lparr>num_row = 3, labels = \<lparr>data = [1, 2, 3], shape0 = 3, shape1 = 1\<rparr>,
      weights = [], ShouldHaveLabels = True\<rparr> []
     \<noteq> Inr [(2 * 3 + 10 * 1) / (3 + 1)]
   \<and> InitEstimation Quantile WeightedQuantile (1/1000000)
     \<lparr>reduce_ok = True, peer_data = [(10 * 1, 1)]\<rparr> CPU
     \<lparr>quantile_alpha = [1/2], m_alpha = [1/2]\<rparr>
     \<lparr>num_row = 3, labels = \<lparr>data = [1, 2, 3], shape0 = 3, shape1 = 1\<rparr>,
      weights = [], ShouldHaveLabels = True\<rparr> []
     \<noteq> InitEstimation Quantile WeightedQuantile (1/1000000)
     \<lparr>reduce_ok = True, peer_data = []\<rparr> CPU
     \<lparr>quantile_alpha = [1/2], m_alpha = [1/2]\<rparr>
     \<lparr>num_row = 4, labels = \<lparr>data = [1, 2, 3, 10], shape0 = 4, shape1 = 1\<rparr>,
      weights = [], ShouldHaveLabels = True\<rparr> []"
  by (simp add: InitEstimation_def GlobalSum_def InitEstimation_local_def Targets_def
        Reshape_def upt_rec read_at_def Quantile_def Mean_def Let_def)

text \<open>
  C5, amended. For two workers with local pairs \<open>(meanq1, sw1)\<close> and \<open>(meanq2, sw2)\<close>,
  the base score is \<open>(meanq1 * sw1 + meanq2 * sw2) / (sw1 + sw2 + kRtEps)\<close>: the weighted
  average of the local means scaled by \<open>(sw1 + sw2) / (sw1 + sw2 + kRtEps)\<close>. It is the
  value of a single process over the pooled data, whose local pair is
  \<open>(meanq_pooled, sw1 + sw2)\<close>, exactly when
  \<open>meanq_pooled * (sw1 + sw2) = meanq1 * sw1 + meanq2 * sw2\<close>, that is, when the pooled mean
  of quantiles is the weighted average of the local ones.
\<close>

theorem InitEstimation_two_workers:
  assumes loc: "InitEstimation_local Q WQ dev obj info base_score = Inr (meanq1 * sw1, sw1)"
    and peer: "peer_data coll = [(meanq2 * sw2, sw2)]"
    and ok: "reduce_ok coll"
  shows "InitEstimation Q WQ kRtEps coll dev obj info base_score =
           Inr [(meanq1 * sw1 + meanq2 * sw2) / (sw1 + sw2 + kRtEps)]
       \<and> (sw1 + sw2 \<noteq> 0 \<and> sw1 + sw2 + kRtEps \<noteq> 0 \<longrightarrow>
            (meanq1 * sw1 + meanq2 * sw2) / (sw1 + sw2 + kRtEps) =
            (meanq1 * sw1 + meanq2 * sw2) / (sw1 + sw2) * ((sw1 + sw2) / (sw1 + sw2 + kRtEps)))
       \<and> (InitEstimation_local Q WQ dev obj info_pooled base_score
              = Inr (meanq_pooled * (sw1 + sw2), sw1 + sw2)
            \<and> peer_data coll_single = [] \<and> reduce_ok coll_single
            \<and> sw1 + sw2 + kRtEps \<noteq> 0 \<longrightarrow>
            (InitEstimation Q WQ kRtEps coll dev obj info base_score
               = InitEstimation Q WQ kRtEps coll_single dev obj info_pooled base_score
             \<longleftrightarrow> meanq_pooled * (sw1 + sw2) = meanq1 * sw1 + meanq2 * sw2))"
proof -
  have dist: "InitEstimation Q WQ kRtEps coll dev obj info base_score =
           Inr [(meanq1 * sw1 + meanq2 * sw2) / (sw1 + sw2 + kRtEps)]"
    using loc peer ok by (simp add: InitEstimation_def GlobalSum_def)
  have scale: "sw1 + sw2 \<noteq> 0 \<and> sw1 + sw2 + kRtEps \<noteq> 0 \<longrightarrow>
            (meanq1 * sw1 + meanq2 * sw2) / (sw1 + sw2 + kRtEps) =
            (meanq1 * sw1 + meanq2 * sw2) / (sw1 + sw2) * ((sw1 + sw2) / (sw1 + sw2 + kRtEps))"
    by simp
  have agree: "InitEstimation Q WQ kRtEps coll dev obj info base_score
               = InitEstimation Q WQ kRtEps coll_single dev obj info_pooled base_score
             \<longleftrightarrow> meanq_pooled * (sw1 + sw2) = meanq1 * sw1 + meanq2 * sw2"
    if pooled: "InitEstimation_local Q WQ dev obj info_pooled base_score
                  = Inr (meanq_pooled * (sw1 + sw2), sw1 + sw2)"
      and single: "peer_data coll_single = []" "reduce_ok coll_single"
      and nz: "sw1 + sw2 + kRtEps \<noteq> 0"
  proof -
    have one: "InitEstimation Q WQ kRtEps coll_single dev obj info_pooled base_score =
             Inr [meanq_pooled * (sw1 + sw2) / (sw1 + sw2 + kRtEps)]"
      using pooled single by (simp add: InitEstimation_def GlobalSum_def)
    show ?thesis
      unfolding dist one using nz by (auto simp: divide_simps)
  qed
  from dist scale agree show ?thesis by blast
qed

text \<open>
  The theorem at the two workers above, where the pooled run differs, and at two workers
  that each hold the label 1, where the pooled run over the labels 1, 1 agrees.
\<close>

theorem InitEstimation_two_workers_witness:
  "InitEstimation Quantile WeightedQuantile (1/1000000)
     \<lparr>reduce_ok = True, peer_data = [(10 * 1, 1)]\<rparr> CPU
     \<lparr>quantile_alpha = [1/2], m_alpha = [1/2]\<rparr>
     \<lparr>num_row = 3, labels = \<lparr>data = [1, 2, 3], shape0 = 3, shape1 = 1\<rparr>,
      weights = [], ShouldHaveLabels = True\<rparr> [] = Inr [(2 * 3 + 10 * 1) / (3 + 1 + 1/1000000)]
   \<and> InitEstimation Quantile WeightedQuantile (1/1000000)
     \<lparr>reduce_ok = True, peer_data = [(10 * 1, 1)]\<rparr> CPU
     \<lparr>quantile_alpha = [1/2], m_alpha = [1/2]\<rparr>
     \<lparr>num_row = 3, labels = \<lparr>data = [1, 2, 3], shape0 = 3, shape1 = 1\<rparr>,
      weights = [], ShouldHaveLabels = True\<rparr> []
     \<noteq> InitEstimation Quantile WeightedQuantile (1/1000000)
     \<lparr>reduce_ok = True, peer_data = []\<rparr> CPU
     \<lparr>quantile_alpha = [1/2], m_alpha = [1/2]\<rparr>
     \<lparr>num_row = 4, labels = \<lparr>data = [1, 2, 3, 10], shape0 = 4, shape1 = 1\<rparr>,
      weights = [], ShouldHaveLabels = True\<rparr> []
   \<and> InitEstimation Quantile WeightedQuantile (1/1000000)
     \<lparr>reduce_ok = True, peer_data = [(1 * 1, 1)]\<rparr> CPU
     \<lparr>quantile_alpha = [1/2], m_alpha = [1/2]\<rparr>
     \<lparr>num_row = 1, labels = \<lparr>data = [1], shape0 = 1, shape1 = 1\<rparr>,
      weights = [], ShouldHaveLabels = True\<rparr> []
     = InitEstimation Quantile WeightedQuantile (1/1000000)
     \<lparr>reduce_ok = True, peer_data = []\<rparr> CPU
     \<lparr>quantile_alpha = [1/2], m_alpha = [1/2]\<rparr>
     \<lparr>num_row = 2, labels = \<lparr>data = [1, 1], shape0 = 2, shape1 = 1\<rparr>,
      weights = [], ShouldHaveLabels = True\<rparr> []"
proof -
  let ?obj = "\<lparr>quantile_alpha = [1/2], m_alpha = [1/2 :: real]\<rparr>"
  let ?a = "\<lparr>num_row = 3, labels = \<lparr>data = [1, 2, 3], shape0 = 3, shape1 = 1\<rparr>,
            weights = [], ShouldHaveLabels = True\<rparr>"
  let ?b = "\<lparr>num_row = 4, labels = \<lparr>data = [1, 2, 3, 10], shape0 = 4, shape1 = 1\<rparr>,
            weights = [], ShouldHaveLabels = True\<rparr>"
  let ?c = "\<lparr>num_row = 1, labels = \<lparr>data = [1], shape0 = 1, shape1 = 1\<rparr>,
            weights = [], ShouldHaveLabels = True\<rparr>"
  let ?d = "\<lparr>num_row = 2, labels = \<lparr>data = [1, 1], shape0 = 2, shape1 = 1\<rparr>,
            weights = [], ShouldHaveLabels = True\<rparr>"
  let ?peer10 = "\<lparr>reduce_ok = True, peer_data = [(10 * 1, 1 :: real)]\<rparr>"
  let ?peer1 = "\<lparr>reduce_ok = True, peer_data = [(1 * 1, 1 :: real)]\<rparr>"
  let ?alone = "\<lparr>reduce_ok = True, peer_data = [] :: (real \<times> real) list\<rparr>"
  have la: "InitEstimation_local Quantile WeightedQuantile CPU ?obj ?a [] = Inr (2 * 3, 3)"
    by (simp add: InitEstimation_local_def Targets_def Reshape_def upt_rec read_at_def
          Quantile_def Mean_def Let_def)
  have lb: "InitEstimation_local Quantile WeightedQuantile CPU ?obj ?b []
              = Inr (5/2 * (3 + 1), 3 + 1)"
    by (simp add: InitEstimation_local_def Targets_def Reshape_def upt_rec read_at_def
          Quantile_def Mean_def Let_def)
  have lc: "InitEstimation_local Quantile WeightedQuantile CPU ?obj ?c [] = Inr (1 * 1, 1)"
    by (simp add: InitEstimation_local_def Targets_def Reshape_def upt_rec read_at_def
          Quantile_def Mean_def Let_def)
  have ld: "InitEstimation_local Quantile WeightedQuantile CPU ?obj ?d []
              = Inr (1 * (1 + 1), 1 + 1)"
    by (simp add: InitEstimation_local_def Targets_def Reshape_def upt_rec read_at_def
          Quantile_def Mean_def Let_def)
  have p10: "peer_data ?peer10 = [(10 * 1, 1)]" and p1: "peer_data ?peer1 = [(1 * 1, 1)]"
    and ok10: "reduce_ok ?peer10" and ok1: "reduce_ok ?peer1"
    and alone: "peer_data ?alone = []" "reduce_ok ?alone"
    by simp_all
  let ?dist = "InitEstimation Quantile WeightedQuantile (1/1000000) ?peer10 CPU ?obj ?a []"
  let ?single = "InitEstimation Quantile WeightedQuantile (1/1000000) ?alone CPU ?obj ?b []"
  let ?dist1 = "InitEstimation Quantile WeightedQuantile (1/1000000) ?peer1 CPU ?obj ?c []"
  let ?single1 = "InitEstimation Quantile WeightedQuantile (1/1000000) ?alone CPU ?obj ?d []"
  note W = InitEstimation_two_workers [where kRtEps = "1/1000000" and info_pooled = ?b
      and meanq_pooled = "5/2" and coll_single = ?alone, OF la p10 ok10]
  note W1 = InitEstimation_two_workers [where kRtEps = "1/1000000" and info_pooled = ?d
      and meanq_pooled = 1 and coll_single = ?alone, OF lc p1 ok1]
  have nz: "(3::real) + 1 + 1/1000000 \<noteq> 0" and nz1: "(1::real) + 1 + 1/1000000 \<noteq> 0"
    by simp_all
  have first: "?dist = Inr [(2 * 3 + 10 * 1) / (3 + 1 + 1/1000000)]"
    by (rule W [THEN conjunct1])
  have "?dist = ?single \<longleftrightarrow> (5/2 :: real) * (3 + 1) = 2 * 3 + 10 * 1"
    using W [THEN conjunct2, THEN conjunct2] lb alone nz by blast
  then have differ: "?dist \<noteq> ?single" by simp
  have "?dist1 = ?single1 \<longleftrightarrow> (1::real) * (1 + 1) = 1 * 1 + 1 * 1"
    using W1 [THEN conjunct2, THEN conjunct2] ld alone nz1 by blast
  then have same: "?dist1 = ?single1" by simp
  from first differ same show ?thesis by blast
qed

text \<open>
  C6. For the labels 1, 2, 3, 4, 5 and the level 0.5 the unweighted estimator returns 3,
  the weighted estimator with the weight 1 for every label returns 3, and so does the host
  loop of \<open>InitEstimation\<close> in both cases.
\<close>

theorem median_of_five:
  "Quantile (1/2) [1, 2, 3, 4, 5] = Inr 3
   \<and> WeightedQuantile (1/2) [1, 2, 3, 4, 5] [1, 1, 1, 1, 1] = Inr 3
   \<and> host_quantiles Quantile WeightedQuantile \<lparr>quantile_alpha = [1/2], m_alpha = [1/2]\<rparr>
        \<lparr>num_row = 5, labels = \<lparr>data = [1, 2, 3, 4, 5], shape0 = 5, shape1 = 1\<rparr>,
         weights = [], ShouldHaveLabels = True\<rparr> [0..<1] [0] = Inr [3]
   \<and> host_quantiles Quantile WeightedQuantile \<lparr>quantile_alpha = [1/2], m_alpha = [1/2]\<rparr>
        \<lparr>num_row = 5, labels = \<lparr>data = [1, 2, 3, 4, 5], shape0 = 5, shape1 = 1\<rparr>,
         weights = [1, 1, 1, 1, 1], ShouldHaveLabels = True\<rparr> [0..<1] [0] = Inr [3]"
  by (simp add: Quantile_def WeightedQuantile_def read_at_def Let_def)

text \<open>
  C8. On the host path, for a configured objective and a label shape that \<open>Targets\<close>
  accepts, a shard with no label and no weight makes \<open>InitEstimation\<close> fail with
  \<open>EmptyInputError\<close>, the error of the estimator, whatever the level list.
\<close>

theorem InitEstimation_empty_shard:
  assumes conf: "configured obj"
    and tgt: "Targets obj info = Inr n"
    and empty: "data (labels info) = []" "weights info = []"
  shows "InitEstimation Quantile WeightedQuantile kRtEps coll CPU obj info base_score =
           Inl EmptyInputError"
proof -
  have ne: "m_alpha obj \<noteq> []" and qa: "quantile_alpha obj = m_alpha obj"
    using conf by (simp_all add: configured_def)
  have "0 < n" using tgt ne by (auto simp: Targets_def Let_def split: if_splits)
  then have ts: "[0..<n] = 0 # [1..<n]" by (simp add: upt_conv_Cons)
  have "host_quantiles Quantile WeightedQuantile obj info [0..<n] (Reshape 0 n base_score) =
          Inl EmptyInputError"
    using ne qa empty by (simp add: ts read_at_def Quantile_def)
  then show ?thesis
    using ne by (simp add: InitEstimation_def InitEstimation_local_def tgt Let_def)
qed

text \<open>
  The theorem at three levels and a label tensor of no row and one column.
\<close>

theorem InitEstimation_empty_shard_witness:
  "InitEstimation Quantile WeightedQuantile (1/1000000)
     \<lparr>reduce_ok = True, peer_data = [(1, 1)]\<rparr> CPU
     \<lparr>quantile_alpha = [1/10, 1/2, 9/10], m_alpha = [1/10, 1/2, 9/10]\<rparr>
     \<lparr>num_row = 0, labels = \<lparr>data = [], shape0 = 0, shape1 = 1\<rparr>,
      weights = [], ShouldHaveLabels = True\<rparr> [] = Inl EmptyInputError"
proof -
  let ?obj = "\<lparr>quantile_alpha = [1/10, 1/2, 9/10], m_alpha = [1/10, 1/2, 9/10 :: real]\<rparr>"
  let ?info = "\<lparr>num_row = 0, labels = \<lparr>data = [], shape0 = 0, shape1 = 1\<rparr>,
                weights = [], ShouldHaveLabels = True\<rparr>"
  have c: "configured ?obj" by (simp add: configured_def)
  have t: "Targets ?obj ?info = Inr 3" by (simp add: Targets_def)
  have e: "data (labels ?info) = []" "weights ?info = []" by simp_all
  from InitEstimation_empty_shard [OF c t e] show ?thesis .
qed

text \<open>
  C9. Whenever \<open>InitEstimation\<close> returns, the base score has exactly one entry, and the
  entry is the first component of the global sum divided by the second component plus
  \<open>kRtEps\<close>, where the global sum adds this worker's 2-vector and those of the other
  workers; the number of levels does not matter.
\<close>

theorem InitEstimation_single_entry:
  assumes "InitEstimation Q WQ kRtEps coll dev obj info base_score = Inr out"
  shows "length out = 1
       \<and> (\<exists>meanq sw. InitEstimation_local Q WQ dev obj info base_score = Inr (meanq, sw)
            \<and> out ! 0 = (meanq + sum_list (map fst (peer_data coll)))
                         / (sw + sum_list (map snd (peer_data coll)) + kRtEps))"
  using assms
  by (auto simp: InitEstimation_def GlobalSum_def split: sum.splits if_splits)

text \<open>
  The theorem at three levels and an output vector that had four entries before.
\<close>

theorem InitEstimation_single_entry_witness:
  "InitEstimation Quantile WeightedQuantile (1/1000000)
     \<lparr>reduce_ok = True, peer_data = [(1, 1)]\<rparr> CPU
     \<lparr>quantile_alpha = [1/10, 1/2, 9/10], m_alpha = [1/10, 1/2, 9/10]\<rparr>
     \<lparr>num_row = 5, labels = \<lparr>data = [1, 2, 3, 4, 5], shape0 = 5, shape1 = 1\<rparr>,
      weights = [], ShouldHaveLabels = True\<rparr> [0, 0, 0, 0] = Inr [16000000 / 6000001]
   \<and> length [16000000 / 6000001 :: real] = 1
   \<and> (\<exists>meanq sw. InitEstimation_local Quantile WeightedQuantile CPU
         \<lparr>quantile_alpha = [1/10, 1/2, 9/10], m_alpha = [1/10, 1/2, 9/10]\<rparr>
         \<lparr>num_row = 5, labels = \<lparr>data = [1, 2, 3, 4, 5], shape0 = 5, shape1 = 1\<rparr>,
          weights = [], ShouldHaveLabels = True\<rparr> [0, 0, 0, 0] = Inr (meanq, sw)
        \<and> [16000000 / 6000001] ! 0 = (meanq + 1) / (sw + 1 + 1/1000000))"
proof -
  let ?obj = "\<lparr>quantile_alpha = [1/10, 1/2, 9/10], m_alpha = [1/10, 1/2, 9/10 :: real]\<rparr>"
  let ?info = "\<lparr>num_row = 5, labels = \<lparr>data = [1, 2, 3, 4, 5], shape0 = 5, shape1 = 1\<rparr>,
                weights = [], ShouldHaveLabels = True\<rparr>"
  let ?coll = "\<lparr>reduce_ok = True, peer_data = [(1, 1 :: real)]\<rparr>"
  have run: "InitEstimation Quantile WeightedQuantile (1/1000000) ?coll CPU ?obj ?info [0, 0, 0, 0]
               = Inr [16000000 / 6000001]"
    by (simp add: InitEstimation_def GlobalSum_def InitEstimation_local_def Targets_def
          Reshape_def upt_rec read_at_def Quantile_def Mean_def Let_def)
  from InitEstimation_single_entry [OF run] run show ?thesis by simp
qed

end
